theory Spec2Isabelle
  imports Complex_Main
begin

section \<open>JavaScript values on the wire\<close>

text \<open>
  The SDK of \<^verbatim>\<open>video-analytics.js\<close> builds its events and payloads as object
  literals and hands them to \<^verbatim>\<open>JSON.stringify\<close>. An object literal is modelled by
  its properties in the order they are written; a number is a rational (every finite
  double is one, and the code only compares and prints them).
\<close>

datatype json =
    JNull
  | JBool bool
  | JNum rat
  | JStr string
  | JArr "json list"
  | JObj "(string \<times> json) list"

text \<open>\<^verbatim>\<open>n.toString()\<close> of a non-negative integer, and Go's \<^verbatim>\<open>%d\<close>.\<close>

definition digit_char :: "nat \<Rightarrow> char" where
  "digit_char d = char_of (48 + d)"

fun show_nat :: "nat \<Rightarrow> string" where
  "show_nat n = (if n < 10 then [digit_char n] else show_nat (n div 10) @ [digit_char (n mod 10)])"

declare show_nat.simps [simp del]

section \<open>The SDK state\<close>

record config =
  apiEndpoint :: string
  batchSize :: int
  batchIntervalMs :: int
  debug :: bool
  clientId :: json
  apiKey :: json
  autoDetect :: bool
  sampleRate_timeupdate :: rat

definition DEFAULT_CONFIG :: config where
  "DEFAULT_CONFIG = \<lparr> apiEndpoint = ''http://localhost:8080/api/v1/events'',
     batchSize = 15, batchIntervalMs = 5000, debug = False, clientId = JNull,
     apiKey = JNull, autoDetect = True, sampleRate_timeupdate = 2 / 10 \<rparr>"

record playerData =
  videoId :: string
  lastTimeupdateTracked :: int

text \<open>
  The module-level variables. A player object is identified by a number (the key of the
  \<^verbatim>\<open>Map\<close>). \<open>retryTimeout\<close> is \<open>Some d\<close> while the timer set by \<^verbatim>\<open>setTimeout(_, d)\<close>
  is armed and \<open>None\<close> when the variable is \<^verbatim>\<open>null\<close>; \<open>batchInterval\<close> is \<open>Some p\<close>
  while the periodic timer of period \<open>p\<close> runs.
\<close>

record sdk =
  config :: config
  eventQueue :: "json list"
  retryQueue :: "json list"
  retryAttempt :: nat
  retryTimeout :: "int option"
  batchInterval :: "int option"
  trackedPlayers :: "nat \<rightharpoonup> playerData"
  isInitialized :: bool

text \<open>
  Everything a handler reads from the browser while it runs: the clock, the two stores
  behind \<^verbatim>\<open>getSessionId\<close> and \<^verbatim>\<open>getUserIdentifiers\<close>, the random token of
  \<^verbatim>\<open>generateUUID\<close>, the player's getters, \<^verbatim>\<open>navigator\<close>, \<^verbatim>\<open>screen\<close>,
  \<^verbatim>\<open>window\<close> and \<^verbatim>\<open>document\<close>. \<open>connectionType\<close> is \<open>None\<close> when
  \<^verbatim>\<open>navigator.connection\<close> exists without an \<^verbatim>\<open>effectiveType\<close>: the property is
  then \<^verbatim>\<open>undefined\<close>, which \<^verbatim>\<open>JSON.stringify\<close> leaves out.
\<close>

record env =
  now_iso :: string
  session_id :: string
  user_id :: json
  anonymous_id :: string
  uuid :: string
  currentTime :: json
  duration :: json
  paused :: json
  ended :: json
  playbackRate :: json
  volume :: json
  muted :: json
  fullscreen :: json
  networkState :: json
  readyState :: json
  userAgent :: string
  screenResolution :: string
  viewportSize :: string
  playerSize :: string
  connectionType :: "json option"
  pageUrl :: string
  referrer :: string
  pageTitle :: string

text \<open>A call of \<^verbatim>\<open>fetch\<close>, with the \<^verbatim>\<open>events\<close> array its handlers close over.\<close>

record request =
  req_url :: string
  req_method :: string
  req_headers :: "(string \<times> string) list"
  req_body :: json
  req_keepalive :: bool
  req_events :: "json list"

record beacon =
  beacon_url :: string
  beacon_payload :: json



section \<open>Retry scheduling\<close>

definition scheduleRetry :: "sdk \<Rightarrow> sdk" where
  "scheduleRetry s =
     (case retryTimeout s of
        Some t \<Rightarrow> s
      | None \<Rightarrow>
          (let n = retryAttempt s + 1;
               delay = min (1000 * 2 ^ n) 30000
           in s\<lparr> retryAttempt := n, retryTimeout := Some delay \<rparr>))"




section \<open>Batching\<close>

definition sendBatch :: "env \<Rightarrow> sdk \<Rightarrow> sdk \<times> request option" where
  "sendBatch e s =
     (if eventQueue s = [] then (s, None)
      else
        (let events = eventQueue s;
             s' = s\<lparr> eventQueue := [] \<rparr>;
             payload = JObj
               [(''clientId'', clientId (config s)),
                (''apiKey'', apiKey (config s)),
                (''sessionId'', JStr (session_id e)),
                (''batchId'', JStr (uuid e)),
                (''events'', JArr events),
                (''timestamp'', JStr (now_iso e))]
         in (s', Some \<lparr> req_url = apiEndpoint (config s), req_method = ''POST'',
                req_headers =
                  [(''Content-Type'', ''application/json''),
                   (''X-Analytics-Client'', ''VideoAnalytics-SDK/1.0.0'')],
                req_body = payload, req_keepalive = True, req_events = events \<rparr>)))"


definition track_event_record :: "string \<Rightarrow> string \<Rightarrow> env \<Rightarrow> json" where
  "track_event_record eventName vid e = JObj
     [(''eventName'', JStr eventName),
      (''videoId'', JStr vid),
      (''timestamp'', JStr (now_iso e)),
      (''sessionId'', JStr (session_id e)),
      (''userId'', user_id e),
      (''anonymousId'', JStr (anonymous_id e)),
      (''playbackState'', JObj
         [(''currentTime'', currentTime e), (''duration'', duration e),
          (''paused'', paused e), (''ended'', ended e),
          (''playbackRate'', playbackRate e), (''volume'', volume e),
          (''muted'', muted e), (''fullscreen'', fullscreen e),
          (''networkState'', networkState e), (''readyState'', readyState e)]),
      (''technical'', JObj
         ([(''userAgent'', JStr (userAgent e)),
          (''screenResolution'', JStr (screenResolution e)),
          (''viewportSize'', JStr (viewportSize e)),
          (''playerSize'', JStr (playerSize e))]
          @ (case connectionType e of None \<Rightarrow> [] | Some v \<Rightarrow> [(''connectionType'', v)]))),
      (''context'', JObj
         [(''pageUrl'', JStr (pageUrl e)), (''referrer'', JStr (referrer e)),
          (''pageTitle'', JStr (pageTitle e))])]"

definition priority_events :: "string list" where
  "priority_events = [''play'', ''pause'', ''ended'', ''error'']"

text \<open>\<open>e\<close> is what the handler reads while it builds the event, \<open>be\<close> what
  \<open>sendBatch\<close> reads when it is called at the end.\<close>

definition trackEvent :: "nat \<Rightarrow> string \<Rightarrow> env \<Rightarrow> env \<Rightarrow> sdk \<Rightarrow> sdk \<times> request option" where
  "trackEvent player eventName e be s =
     (if \<not> isInitialized s then (s, None)
      else case trackedPlayers s player of
        None \<Rightarrow> (s, None)
      | Some pd \<Rightarrow>
          (let event = track_event_record eventName (videoId pd) e;
               s1 = s\<lparr> eventQueue := eventQueue s @ [event] \<rparr>
           in if eventName \<in> set priority_events
                 \<or> int (length (eventQueue s1)) \<ge> batchSize (config s1)
              then sendBatch be s1
              else (s1, None)))"

text \<open>A run of \<open>trackEvent\<close> calls, with the requests they issue, in order.\<close>

fun trackEvents :: "(nat \<times> string \<times> env \<times> env) list \<Rightarrow> sdk \<Rightarrow> sdk \<times> request list" where
  "trackEvents [] s = (s, [])"
| "trackEvents ((player, eventName, e, be) # cs) s =
     (case trackEvent player eventName e be s of
        (s1, r) \<Rightarrow>
          (case trackEvents cs s1 of
             (s2, rs) \<Rightarrow> (s2, (case r of None \<Rightarrow> [] | Some q \<Rightarrow> [q]) @ rs)))"

text \<open>
  The \<^verbatim>\<open>timeupdate\<close> listener registered by \<open>trackPlayer\<close>: \<open>now\<close> is
  \<^verbatim>\<open>Date.now()\<close> and \<open>draw\<close> is \<^verbatim>\<open>Math.random()\<close>. Reading a field of a missing
  registration throws, which is the result \<open>None\<close>.
\<close>

definition on_timeupdate ::
  "nat \<Rightarrow> int \<Rightarrow> rat \<Rightarrow> env \<Rightarrow> env \<Rightarrow> sdk \<Rightarrow> (sdk \<times> request option) option" where
  "on_timeupdate player now draw e be s =
     (case trackedPlayers s player of
        None \<Rightarrow> None
      | Some pd \<Rightarrow>
          if draw < sampleRate_timeupdate (config s) \<and> now - lastTimeupdateTracked pd > 500
          then Some (trackEvent player ''timeupdate'' e be
                 (s\<lparr> trackedPlayers :=
                      (trackedPlayers s)(player \<mapsto> pd\<lparr> lastTimeupdateTracked := now \<rparr>) \<rparr>))
          else Some (s, None))"

text \<open>\<open>valid\<close> says that the argument is an object with an \<^verbatim>\<open>on\<close> method.\<close>

definition trackPlayer :: "nat \<Rightarrow> bool \<Rightarrow> string \<Rightarrow> env \<Rightarrow> env \<Rightarrow> sdk \<Rightarrow> sdk \<times> request option" where
  "trackPlayer player valid vid e be s =
     (if \<not> valid then (s, None)
      else if trackedPlayers s player \<noteq> None then (s, None)
      else trackEvent player ''playerInit'' e be
             (s\<lparr> trackedPlayers :=
                  (trackedPlayers s)(player \<mapsto>
                     \<lparr> videoId = vid, lastTimeupdateTracked = 0 \<rparr>) \<rparr>))"

section \<open>Page teardown\<close>

definition final_event_record :: "env \<Rightarrow> json" where
  "final_event_record e = JObj
     [(''eventName'', JStr ''pageUnload''),
      (''timestamp'', JStr (now_iso e)),
      (''sessionId'', JStr (session_id e)),
      (''userId'', user_id e),
      (''anonymousId'', JStr (anonymous_id e)),
      (''context'', JObj
         [(''pageUrl'', JStr (pageUrl e)), (''referrer'', JStr (referrer e))])]"

definition handlePageUnload :: "env \<Rightarrow> sdk \<Rightarrow> sdk \<times> beacon option" where
  "handlePageUnload e s =
     (let s1 = s\<lparr> batchInterval := None \<rparr>;
          allEvents = eventQueue s @ retryQueue s
      in if allEvents = [] then (s1, None)
         else
           (let allEvents' = allEvents @ [final_event_record e];
                payload = JObj
                  [(''clientId'', clientId (config s)),
                   (''apiKey'', apiKey (config s)),
                   (''sessionId'', JStr (session_id e)),
                   (''batchId'', JStr (uuid e)),
                   (''events'', JArr allEvents'),
                   (''timestamp'', JStr (now_iso e))]
            in (s1, Some \<lparr> beacon_url = apiEndpoint (config s) @ ''/beacon'',
                            beacon_payload = payload \<rparr>)))"

section \<open>Consecutive retry failures\<close>



section \<open>The collector: models\<close>

text \<open>
  \<^verbatim>\<open>map[string]interface{}\<close> is \<open>None\<close> for the nil map and otherwise the entries
  of the map; a slice is \<open>None\<close> for nil. Strings are text.
\<close>

record Event =
  EventName :: string
  VideoID :: string
  Timestamp :: string
  SessionID :: string
  UserID :: string
  AnonymousID :: string
  PlaybackState :: "(string \<times> json) list option"
  Technical :: "(string \<times> json) list option"
  Context :: "(string \<times> json) list option"
  CustomData :: string

record EventBatch =
  ClientID :: string
  APIKey :: string
  BatchSessionID :: string
  BatchID :: string
  Events :: "Event list option"
  BatchTimestamp :: string
  IsRetry :: bool

definition events_of :: "EventBatch \<Rightarrow> Event list" where
  "events_of b = (case Events b of None \<Rightarrow> [] | Some es \<Rightarrow> es)"

text \<open>\<open>now\<close> is \<^verbatim>\<open>time.Now().Format(time.RFC3339)\<close>.\<close>

definition NewEventBatch ::
  "string \<Rightarrow> string \<Rightarrow> string \<Rightarrow> string \<Rightarrow> string \<Rightarrow> Event list option \<Rightarrow> EventBatch" where
  "NewEventBatch now cid key sid bid evs =
     \<lparr> ClientID = cid, APIKey = key, BatchSessionID = sid, BatchID = bid, Events = evs,
       BatchTimestamp = now, IsRetry = False \<rparr>"

subsection \<open>The struct tags as a JSON codec\<close>





definition to_lower_ascii :: "char \<Rightarrow> char" where
  "to_lower_ascii ch =
     (if 65 \<le> (of_char ch :: nat) \<and> (of_char ch :: nat) \<le> 90
      then char_of ((of_char ch :: nat) + 32) else ch)"

definition fold_name :: "string \<Rightarrow> string" where
  "fold_name name = map to_lower_ascii name"

definition is_ascii :: "string \<Rightarrow> bool" where
  "is_ascii name = list_all (\<lambda>ch. (of_char ch :: nat) < 128) name"










definition zero_Event :: Event where
  "zero_Event = \<lparr> EventName = [], VideoID = [], Timestamp = [], SessionID = [], UserID = [],
     AnonymousID = [], PlaybackState = None, Technical = None, Context = None,
     CustomData = [] \<rparr>"










fun members :: "json \<Rightarrow> (string \<times> json) list" where
  "members (JObj kvs) = kvs"
| "members v = []"

section \<open>The collector: the event log\<close>

text \<open>
  The log file is the text written to it so far. \<open>faults\<close> is what the operating
  system will do with the writes to come, first write first: \<open>WriteFails n\<close> is a write
  that returns an error after \<open>n\<close> bytes went out; past the end of the list every write
  succeeds.
\<close>

datatype write_outcome = WriteOk | WriteFails nat

record EventLogger =
  logFile :: string
  logDir :: string
  faults :: "write_outcome list"

datatype log_error = HeaderWriteFailed | MarshalFailed | EventWriteFailed | BreaksWriteFailed

definition file_write :: "string \<Rightarrow> EventLogger \<Rightarrow> bool \<times> EventLogger" where
  "file_write data l =
     (case faults l of
        [] \<Rightarrow> (True, l\<lparr> logFile := logFile l @ data \<rparr>)
      | WriteOk # rest \<Rightarrow> (True, l\<lparr> logFile := logFile l @ data, faults := rest \<rparr>)
      | WriteFails n # rest \<Rightarrow>
          (False, l\<lparr> logFile := logFile l @ take n data, faults := rest \<rparr>))"

definition line_breaks :: string where
  "line_breaks = [CHR 0x0A, CHR 0x0A]"

text \<open>\<open>marshal\<close> is \<^verbatim>\<open>json.MarshalIndent(_, "", " ")\<close>, \<open>None\<close> when it returns an
  error.\<close>

definition logEvent :: "(Event \<Rightarrow> string option) \<Rightarrow> Event \<Rightarrow> EventLogger \<Rightarrow> (log_error + unit) \<times> EventLogger" where
  "logEvent marshal ev l =
     (case marshal ev of
        None \<Rightarrow> (Inl MarshalFailed, l)
      | Some eventJSON \<Rightarrow>
          (case file_write eventJSON l of
             (False, l1) \<Rightarrow> (Inl EventWriteFailed, l1)
           | (True, l1) \<Rightarrow>
               (case file_write line_breaks l1 of
                  (False, l2) \<Rightarrow> (Inl BreaksWriteFailed, l2)
                | (True, l2) \<Rightarrow> (Inr (), l2))))"

fun logEvents :: "(Event \<Rightarrow> string option) \<Rightarrow> Event list \<Rightarrow> EventLogger \<Rightarrow> (log_error + unit) \<times> EventLogger" where
  "logEvents marshal [] l = (Inr (), l)"
| "logEvents marshal (ev # evs) l =
     (case logEvent marshal ev l of
        (Inl err, l1) \<Rightarrow> (Inl err, l1)
      | (Inr u, l1) \<Rightarrow> logEvents marshal evs l1)"

definition batchInfo :: "EventBatch \<Rightarrow> string" where
  "batchInfo b = ''--- Batch from client '' @ ClientID b @ '' (Session: '' @ BatchSessionID b
     @ '', Batch: '' @ BatchID b @ '') ---'' @ [CHR 0x0A]"

definition LogBatch :: "(Event \<Rightarrow> string option) \<Rightarrow> EventBatch \<Rightarrow> EventLogger \<Rightarrow> (log_error + unit) \<times> EventLogger" where
  "LogBatch marshal b l =
     (case file_write (batchInfo b) l of
        (False, l1) \<Rightarrow> (Inl HeaderWriteFailed, l1)
      | (True, l1) \<Rightarrow> logEvents marshal (events_of b) l1)"

section \<open>The collector: the handlers\<close>

record http_request =
  Method :: string
  Body :: string

datatype body = NoBody | TextBody string | JsonBody json

text \<open>What a handler did with its \<^verbatim>\<open>ResponseWriter\<close>: \<open>written_status\<close> is
  \<open>None\<close> when it returned without \<^verbatim>\<open>WriteHeader\<close> and without writing.\<close>

record response =
  written_status :: "nat option"
  resp_headers :: "(string \<times> string) list"
  resp_body :: body

definition no_response :: response where
  "no_response = \<lparr> written_status = None, resp_headers = [], resp_body = NoBody \<rparr>"

definition http_Error :: "string \<Rightarrow> nat \<Rightarrow> response" where
  "http_Error msg code =
     \<lparr> written_status = Some code,
       resp_headers = [(''Content-Type'', ''text/plain; charset=utf-8''),
                       (''X-Content-Type-Options'', ''nosniff'')],
       resp_body = TextBody (msg @ [CHR 0x0A]) \<rparr>"

text \<open>\<^verbatim>\<open>net/http\<close> answers 200 for a handler that returns having written nothing.\<close>

definition status_sent :: "response \<Rightarrow> nat" where
  "status_sent r = (case written_status r of None \<Rightarrow> 200 | Some c \<Rightarrow> c)"

text \<open>\<open>decode\<close> is \<^verbatim>\<open>json.NewDecoder(r.Body).Decode(&batch)\<close>, \<open>None\<close> when it
  returns an error.\<close>

definition HandleEvents ::
  "(string \<Rightarrow> EventBatch option) \<Rightarrow> (Event \<Rightarrow> string option) \<Rightarrow> http_request \<Rightarrow> EventLogger
     \<Rightarrow> response \<times> EventLogger" where
  "HandleEvents decode marshal r l =
     (if Method r \<noteq> ''POST'' then (http_Error ''Method not allowed'' 405, l)
      else case decode (Body r) of
        None \<Rightarrow> (http_Error ''Invalid request body'' 400, l)
      | Some batch \<Rightarrow>
          (case LogBatch marshal batch l of
             (Inl err, l1) \<Rightarrow> (http_Error ''Internal server error'' 500, l1)
           | (Inr u, l1) \<Rightarrow>
               (\<lparr> written_status = Some 200,
                  resp_headers = [(''Content-Type'', ''application/json'')],
                  resp_body = JsonBody (JObj
                    [(''message'', JStr (''Processed '' @ show_nat (length (events_of batch))
                                          @ '' events'')),
                     (''status'', JStr ''success'')]) \<rparr>, l1)))"

definition HandleBeacons ::
  "(string \<Rightarrow> EventBatch option) \<Rightarrow> (Event \<Rightarrow> string option) \<Rightarrow> http_request \<Rightarrow> EventLogger
     \<Rightarrow> response \<times> EventLogger" where
  "HandleBeacons decode marshal r l =
     (if Method r \<noteq> ''POST'' then (http_Error ''Method not allowed'' 405, l)
      else case decode (Body r) of
        None \<Rightarrow> (no_response, l)
      | Some batch \<Rightarrow>
          (case LogBatch marshal batch l of
             (Inl err, l1) \<Rightarrow> (no_response, l1)
           | (Inr u, l1) \<Rightarrow>
               (\<lparr> written_status = Some 204, resp_headers = [], resp_body = NoBody \<rparr>, l1)))"

section \<open>Observations and sample inputs\<close>

text \<open>The events a step leaves behind: those of the request it issued, then those still
  pending.\<close>

definition recorded :: "sdk \<times> request option \<Rightarrow> json list" where
  "recorded res = (case snd res of None \<Rightarrow> [] | Some q \<Rightarrow> req_events q) @ eventQueue (fst res)"

text \<open>What \<open>logEvent\<close> appends to the file for an event it logs without error.\<close>

definition rendered :: "(Event \<Rightarrow> string option) \<Rightarrow> Event \<Rightarrow> string" where
  "rendered marshal ev = (case marshal ev of None \<Rightarrow> [] | Some js \<Rightarrow> js @ line_breaks)"

definition env0 :: env where
  "env0 = \<lparr> now_iso = ''2024-01-01T00:00:00.000Z'', session_id = ''s1'', user_id = JNull,
     anonymous_id = ''a1'', uuid = ''u1'', currentTime = JNum 0, duration = JNum 60,
     paused = JBool True, ended = JBool False, playbackRate = JNum 1, volume = JNum 1,
     muted = JBool False, fullscreen = JBool False, networkState = JNum 1,
     readyState = JNum 4, userAgent = ''ua'', screenResolution = ''1920x1080'',
     viewportSize = ''1280x720'', playerSize = ''640x360'', connectionType = Some JNull,
     pageUrl = ''http://localhost:8080/index.html'', referrer = [], pageTitle = ''t'' \<rparr>"

text \<open>An initialised SDK with the default configuration, one registered player and
  nothing queued.\<close>

definition idle_sdk :: sdk where
  "idle_sdk = \<lparr> config = DEFAULT_CONFIG\<lparr> clientId := JStr ''c1'' \<rparr>, eventQueue = [],
     retryQueue = [], retryAttempt = 0, retryTimeout = None, batchInterval = Some 5000,
     trackedPlayers = [0 \<mapsto> \<lparr> videoId = ''v1'', lastTimeupdateTracked = 1000 \<rparr>],
     isInitialized = True \<rparr>"

definition unloading_sdk :: sdk where
  "unloading_sdk = idle_sdk\<lparr> eventQueue := [JStr ''pending''], retryQueue := [JStr ''failed''] \<rparr>"

definition ev0 :: Event where
  "ev0 = zero_Event\<lparr> EventName := ''play'', VideoID := ''v1'' \<rparr>"

definition batch0 :: EventBatch where
  "batch0 = \<lparr> ClientID = ''c1'', APIKey = [], BatchSessionID = ''s1'', BatchID = ''b1'',
     Events = Some [ev0, ev0\<lparr> EventName := ''pause'' \<rparr>], BatchTimestamp = ''t'',
     IsRetry = False \<rparr>"

definition decode0 :: "string \<Rightarrow> EventBatch option" where
  "decode0 body = (if body = ''batch0'' then Some batch0 else None)"

definition marshal0 :: "Event \<Rightarrow> string option" where
  "marshal0 ev = Some (EventName ev)"


definition logger0 :: EventLogger where
  "logger0 = \<lparr> logFile = [], logDir = ''logs'', faults = [] \<rparr>"

section \<open>Retry scheduling: backoff and idempotence\<close>

lemma scheduleRetry_unarmed:
  "retryTimeout s = None \<Longrightarrow>
     scheduleRetry s = s\<lparr> retryAttempt := retryAttempt s + 1,
        retryTimeout := Some (min (1000 * 2 ^ (retryAttempt s + 1)) 30000) \<rparr>"
  by (simp add: scheduleRetry_def Let_def)

text \<open>
  Claim C1. Whenever \<open>scheduleRetry\<close> schedules (no timer is armed), it increments the
  attempt counter and arms the timer with \<open>min (1000 * 2 ^ n) 30000\<close> milliseconds, \<open>n\<close>
  being the counter after the increment; for the attempts 1 to 5 the delays are 2000,
  4000, 8000, 16000 and 30000.
\<close>

theorem C1_backoff_delay:
  "retryTimeout s = None \<Longrightarrow>
     retryAttempt (scheduleRetry s) = retryAttempt s + 1 \<and>
     retryTimeout (scheduleRetry s)
       = Some (min (1000 * 2 ^ retryAttempt (scheduleRetry s)) 30000) \<and>
     map (\<lambda>n. retryTimeout (scheduleRetry (s\<lparr> retryAttempt := n \<rparr>))) [0, 1, 2, 3, 4]
       = [Some 2000, Some 4000, Some 8000, Some 16000, Some 30000]"
  by (simp add: scheduleRetry_unarmed)

theorem C1_backoff_delay_witness:
  "retryTimeout idle_sdk = None \<and>
   retryAttempt (scheduleRetry idle_sdk) = 1 \<and>
   retryTimeout (scheduleRetry idle_sdk) = Some 2000"
  using C1_backoff_delay [of idle_sdk] by (simp add: idle_sdk_def)

text \<open>
  Claim C6. While a retry timer is armed, \<open>scheduleRetry\<close> returns the state it was
  given: no second timer, the same counter, the same delay. Hence calling it twice is
  the same as calling it once.
\<close>

theorem C6_scheduleRetry_idempotent:
  "(retryTimeout s \<noteq> None \<longrightarrow> scheduleRetry s = s) \<and>
   scheduleRetry (scheduleRetry s) = scheduleRetry s"
  by (cases "retryTimeout s") (simp_all add: scheduleRetry_def Let_def)

theorem C6_scheduleRetry_idempotent_witness:
  "retryTimeout (scheduleRetry idle_sdk) \<noteq> None \<and>
   scheduleRetry (scheduleRetry idle_sdk) = scheduleRetry idle_sdk \<and>
   retryAttempt (scheduleRetry (scheduleRetry idle_sdk)) = 1 \<and>
   retryTimeout (scheduleRetry (scheduleRetry idle_sdk)) = Some 2000"
  using C6_scheduleRetry_idempotent [of "scheduleRetry idle_sdk"]
  by (simp add: idle_sdk_def scheduleRetry_def Let_def)

section \<open>Retry exhaustion\<close>












section \<open>Flush triggers\<close>

text \<open>
  Claim C3. Whatever the pending queue holds, the empty queue included, tracking an
  event with a name in the priority set (on an initialised SDK, for a registered
  player) appends the event and calls \<open>sendBatch\<close> in the same step: the request
  carries the old queue followed by the new event, and the pending queue is empty
  afterwards.
\<close>

theorem C3_priority_flush:
  assumes "isInitialized s" and "trackedPlayers s p = Some pd"
    and "name \<in> set priority_events"
  shows "\<exists>r. trackEvent p name e be s = (s\<lparr> eventQueue := [] \<rparr>, Some r)
     \<and> sendBatch be (s\<lparr> eventQueue := eventQueue s @ [track_event_record name (videoId pd) e] \<rparr>)
         = (s\<lparr> eventQueue := [] \<rparr>, Some r)
     \<and> req_events r = eventQueue s @ [track_event_record name (videoId pd) e]
     \<and> map_of (members (req_body r)) ''events''
         = Some (JArr (eventQueue s @ [track_event_record name (videoId pd) e]))"
  using assms by (simp add: trackEvent_def sendBatch_def Let_def)

theorem C3_priority_flush_witness:
  "isInitialized idle_sdk \<and> trackedPlayers idle_sdk 0 \<noteq> None \<and> ''play'' \<in> set priority_events
   \<and> eventQueue idle_sdk = []
   \<and> eventQueue (fst (trackEvent 0 ''play'' env0 env0 idle_sdk)) = []
   \<and> map_option req_events (snd (trackEvent 0 ''play'' env0 env0 idle_sdk))
       = Some [track_event_record ''play'' ''v1'' env0]"
  using C3_priority_flush [of idle_sdk 0 "\<lparr> videoId = ''v1'', lastTimeupdateTracked = 1000 \<rparr>"
      "''play''" env0 env0]
  by (auto simp add: idle_sdk_def priority_events_def)

lemma trackEvent_quiet:
  assumes "name \<notin> set priority_events"
    and "int (length (eventQueue s)) + 1 < batchSize (config s)"
  shows "trackEvent p name e be s =
     (case trackedPlayers s p of
        None \<Rightarrow> s
      | Some pd \<Rightarrow> if isInitialized s
          then s\<lparr> eventQueue := eventQueue s @ [track_event_record name (videoId pd) e] \<rparr>
          else s, None)"
  using assms by (simp add: trackEvent_def Let_def split: option.splits)

lemma trackEvent_length:
  "length (eventQueue (fst (trackEvent p name e be s))) \<le> length (eventQueue s) + 1"
  by (simp add: trackEvent_def sendBatch_def Let_def split: option.splits)

lemma trackEvent_config: "config (fst (trackEvent p name e be s)) = config s"
  by (simp add: trackEvent_def sendBatch_def Let_def split: option.splits)

lemma trackEvents_quiet:
  "\<forall>c\<in>set calls. fst (snd c) \<notin> set priority_events \<Longrightarrow>
   int (length (eventQueue s)) + int (length calls) \<le> batchSize (config s) - 1 \<Longrightarrow>
   snd (trackEvents calls s) = []"
proof (induction calls arbitrary: s)
  case Nil
  then show ?case by simp
next
  case (Cons c cs)
  obtain p name e be where c: "c = (p, name, e, be)" by (cases c) auto
  let ?after = "fst (trackEvent p name e be s)"
  from Cons.prems c have np: "name \<notin> set priority_events"
    and small: "int (length (eventQueue s)) + 1 < batchSize (config s)" by auto
  have r: "snd (trackEvent p name e be s) = None"
    using trackEvent_quiet [OF np small] by simp
  have "int (length (eventQueue ?after)) + int (length cs) \<le> batchSize (config ?after) - 1"
    using trackEvent_length [of p name e be s] trackEvent_config [of p name e be s] Cons.prems(2)
    by simp
  then have "snd (trackEvents cs ?after) = []"
    using Cons.prems(1) by (intro Cons.IH) simp_all
  then show ?case using r unfolding c
    by (simp add: split_beta split: prod.splits)
qed

text \<open>
  Claim C4, as the code has it. A run of \<open>trackEvent\<close> calls, none of them for a
  priority event, that brings the pending queue to at most \<open>batchSize - 1\<close> events issues
  no request: nothing is flushed before the periodic timer fires. And whenever a call for
  a non-priority event does flush, the queue with the new event in it has reached
  \<open>batchSize\<close>.
\<close>

theorem C4_no_early_size_flush:
  "((\<forall>c\<in>set calls. fst (snd c) \<notin> set priority_events) \<and>
    int (length (eventQueue s)) + int (length calls) \<le> batchSize (config s) - 1
      \<longrightarrow> snd (trackEvents calls s) = [])
   \<and> (name \<notin> set priority_events \<and> snd (trackEvent p name e be s) \<noteq> None
      \<longrightarrow> batchSize (config s) \<le> int (length (eventQueue s)) + 1)"
proof (intro conjI impI)
  assume "(\<forall>c\<in>set calls. fst (snd c) \<notin> set priority_events) \<and>
    int (length (eventQueue s)) + int (length calls) \<le> batchSize (config s) - 1"
  then show "snd (trackEvents calls s) = []" using trackEvents_quiet by blast
next
  assume a: "name \<notin> set priority_events \<and> snd (trackEvent p name e be s) \<noteq> None"
  show "batchSize (config s) \<le> int (length (eventQueue s)) + 1"
  proof (rule ccontr)
    assume "\<not> batchSize (config s) \<le> int (length (eventQueue s)) + 1"
    then have "int (length (eventQueue s)) + 1 < batchSize (config s)" by simp
    from trackEvent_quiet [OF _ this, of name p e be] a show False by simp
  qed
qed

theorem C4_no_early_size_flush_witness:
  "''seeking'' \<notin> set priority_events \<and> ''seeked'' \<notin> set priority_events
   \<and> int (length (eventQueue idle_sdk)) + 2 \<le> batchSize (config idle_sdk) - 1
   \<and> snd (trackEvents [(0, ''seeking'', env0, env0), (0, ''seeked'', env0, env0)] idle_sdk) = []
   \<and> length (eventQueue (fst (trackEvents
        [(0, ''seeking'', env0, env0), (0, ''seeked'', env0, env0)] idle_sdk))) = 2"
  using C4_no_early_size_flush
    [of "[(0::nat, ''seeking'', env0, env0), (0, ''seeked'', env0, env0)]" idle_sdk]
  by (simp add: idle_sdk_def DEFAULT_CONFIG_def trackEvent_def sendBatch_def Let_def
      priority_events_def)

text \<open>One call, with the default \<open>batchSize\<close> of 15 and an empty queue: the event is
  \<^verbatim>\<open>play\<close>, and the flush happens at once.\<close>

theorem C4_priority_counterexample:
  "int (length [(0::nat, ''play'', env0, env0)]) \<le> batchSize (config idle_sdk) - 1
   \<and> eventQueue idle_sdk = []
   \<and> snd (trackEvents [(0, ''play'', env0, env0)] idle_sdk) \<noteq> []"
  by (simp add: idle_sdk_def DEFAULT_CONFIG_def trackEvent_def sendBatch_def Let_def
      priority_events_def)

section \<open>Sampling of timeupdate\<close>

lemma trackEvent_recorded:
  assumes "isInitialized s" and "trackedPlayers s p = Some pd"
  shows "recorded (trackEvent p name e be s)
     = eventQueue s @ [track_event_record name (videoId pd) e]"
  using assms by (simp add: trackEvent_def sendBatch_def Let_def recorded_def)

lemma trackEvent_players:
  "trackedPlayers (fst (trackEvent p name e be s)) = trackedPlayers s"
  by (simp add: trackEvent_def sendBatch_def Let_def split: option.splits)

lemma on_timeupdate_accept:
  assumes "isInitialized s" and "trackedPlayers s p = Some pd"
    and "draw < sampleRate_timeupdate (config s)" and "now - lastTimeupdateTracked pd > 500"
  shows "\<exists>res. on_timeupdate p now draw e be s = Some res
     \<and> recorded res = eventQueue s @ [track_event_record ''timeupdate'' (videoId pd) e]
     \<and> trackedPlayers (fst res) = (trackedPlayers s)(p \<mapsto> pd\<lparr> lastTimeupdateTracked := now \<rparr>)
     \<and> config (fst res) = config s"
  using assms
  by (simp add: on_timeupdate_def trackEvent_recorded trackEvent_players trackEvent_config)

lemma on_timeupdate_reject:
  assumes "trackedPlayers s p = Some pd"
    and "\<not> (draw < sampleRate_timeupdate (config s) \<and> now - lastTimeupdateTracked pd > 500)"
  shows "on_timeupdate p now draw e be s = Some (s, None)"
  using assms by (auto simp add: on_timeupdate_def)

text \<open>
  What the listener does, as the code stands. For a registered player on an initialised
  SDK, the tick's event is recorded and the player's \<open>lastTimeupdateTracked\<close> becomes
  the time of the tick when the draw is below \<open>sampleRate.timeupdate\<close> and
  \<open>now - lastTimeupdateTracked\<close> is above 500; otherwise nothing changes. After a
  recorded tick, a tick at most 500 ms later is not recorded, whatever its draw.
\<close>

lemma on_timeupdate_effect:
  assumes "isInitialized s" and "trackedPlayers s p = Some pd"
  shows "\<exists>res. on_timeupdate p now draw e be s = Some res
     \<and> ((draw < sampleRate_timeupdate (config s) \<and> 500 < now - lastTimeupdateTracked pd)
          \<longleftrightarrow> recorded res = eventQueue s @ [track_event_record ''timeupdate'' (videoId pd) e])
     \<and> (\<not> (draw < sampleRate_timeupdate (config s) \<and> 500 < now - lastTimeupdateTracked pd)
          \<longleftrightarrow> res = (s, None))
     \<and> map_option lastTimeupdateTracked (trackedPlayers (fst res) p)
          = Some (if draw < sampleRate_timeupdate (config s) \<and> 500 < now - lastTimeupdateTracked pd
                  then now else lastTimeupdateTracked pd)
     \<and> (recorded res \<noteq> eventQueue s \<and> now2 - now \<le> 500
          \<longrightarrow> on_timeupdate p now2 draw2 e2 be2 (fst res) = Some (fst res, None))"
proof (cases "draw < sampleRate_timeupdate (config s) \<and> 500 < now - lastTimeupdateTracked pd")
  case True
  from on_timeupdate_accept [OF assms, of draw now e be] True
  obtain res where res: "on_timeupdate p now draw e be s = Some res"
    "recorded res = eventQueue s @ [track_event_record ''timeupdate'' (videoId pd) e]"
    "trackedPlayers (fst res) = (trackedPlayers s)(p \<mapsto> pd\<lparr> lastTimeupdateTracked := now \<rparr>)"
    "config (fst res) = config s"
    by auto
  have ne: "res \<noteq> (s, None)"
    using res(2) by (auto simp: recorded_def)
  have second: "on_timeupdate p now2 draw2 e2 be2 (fst res) = Some (fst res, None)"
    if "now2 - now \<le> 500"
    using that res(3)
    by (intro on_timeupdate_reject [where pd = "pd\<lparr> lastTimeupdateTracked := now \<rparr>"]) simp_all
  show ?thesis using True res ne second by simp
next
  case False
  have "on_timeupdate p now draw e be s = Some (s, None)"
    using on_timeupdate_reject [OF assms(2) False] .
  then show ?thesis using False assms(2) by (auto simp: recorded_def)
qed

text \<open>
  Claim C5. A tick is to be accepted when its draw is below \<open>sampleRate.timeupdate\<close> and
  at least 500 ms have passed since the last accepted tick of the player; the code's own
  comment calls 500 ms the minimum interval. The listener compares with \<^verbatim>\<open>>\<close>: with
  the last accepted tick at 1000, the tick at 1500 whose draw 0.1 is below the rate 0.2
  is turned down, nothing is recorded and the state is the one before.
\<close>

theorem C5_tick_at_500ms_rejected:
  "isInitialized idle_sdk
   \<and> map_option lastTimeupdateTracked (trackedPlayers idle_sdk 0) = Some 1000
   \<and> (1 / 10 :: rat) < sampleRate_timeupdate (config idle_sdk)
   \<and> (1500 :: int) - 1000 \<ge> 500
   \<and> on_timeupdate 0 1500 (1 / 10) env0 env0 idle_sdk = Some (idle_sdk, None)"
  by (simp add: idle_sdk_def DEFAULT_CONFIG_def on_timeupdate_def)

section \<open>Page teardown\<close>

text \<open>
  Claim C10. With both queues empty \<open>handlePageUnload\<close> sends no beacon, hence no
  \<^verbatim>\<open>pageUnload\<close> event either. With anything queued it sends one beacon to the
  \<^verbatim>\<open>/beacon\<close> endpoint whose events are the pending events, then the retry events,
  then the \<^verbatim>\<open>pageUnload\<close> event.
\<close>

theorem C10_page_unload:
  "(eventQueue s = [] \<and> retryQueue s = [] \<longrightarrow> snd (handlePageUnload e s) = None)
   \<and> (eventQueue s @ retryQueue s \<noteq> [] \<longrightarrow>
        (\<exists>b. snd (handlePageUnload e s) = Some b
           \<and> beacon_url b = apiEndpoint (config s) @ ''/beacon''
           \<and> map_of (members (beacon_payload b)) ''events''
               = Some (JArr (eventQueue s @ retryQueue s @ [final_event_record e]))))
   \<and> map_of (members (final_event_record e)) ''eventName'' = Some (JStr ''pageUnload'')"
  by (simp add: handlePageUnload_def Let_def final_event_record_def)

theorem C10_page_unload_witness:
  "eventQueue idle_sdk = [] \<and> retryQueue idle_sdk = []
   \<and> snd (handlePageUnload env0 idle_sdk) = None
   \<and> eventQueue unloading_sdk @ retryQueue unloading_sdk \<noteq> []
   \<and> (\<exists>b. snd (handlePageUnload env0 unloading_sdk) = Some b
         \<and> map_of (members (beacon_payload b)) ''events''
             = Some (JArr [JStr ''pending'', JStr ''failed'', final_event_record env0]))"
proof -
  have a: "eventQueue idle_sdk = [] \<and> retryQueue idle_sdk = []"
    by (simp add: idle_sdk_def)
  have b: "eventQueue unloading_sdk = [JStr ''pending'']" "retryQueue unloading_sdk = [JStr ''failed'']"
    by (simp_all add: unloading_sdk_def)
  from C10_page_unload [of idle_sdk env0] C10_page_unload [of unloading_sdk env0] a b
  show ?thesis by auto
qed

section \<open>The batch on the wire\<close>

lemma fold_tags [simp]:
  "fold_name ''eventName'' = ''eventname''"
  "fold_name ''videoId'' = ''videoid''"
  "fold_name ''timestamp'' = ''timestamp''"
  "fold_name ''sessionId'' = ''sessionid''"
  "fold_name ''userId'' = ''userid''"
  "fold_name ''anonymousId'' = ''anonymousid''"
  "fold_name ''playbackState'' = ''playbackstate''"
  "fold_name ''technical'' = ''technical''"
  "fold_name ''context'' = ''context''"
  "fold_name ''customData'' = ''customdata''"
  "fold_name ''clientId'' = ''clientid''"
  "fold_name ''apiKey'' = ''apikey''"
  "fold_name ''batchId'' = ''batchid''"
  "fold_name ''events'' = ''events''"
  "fold_name ''isRetry'' = ''isretry''"
  "fold_name ''retryAttempt'' = ''retryattempt''"
  by code_simp+

lemma ascii_tags [simp]:
  "is_ascii ''eventName''" "is_ascii ''videoId''" "is_ascii ''timestamp''"
  "is_ascii ''sessionId''" "is_ascii ''userId''" "is_ascii ''anonymousId''"
  "is_ascii ''playbackState''" "is_ascii ''technical''" "is_ascii ''context''"
  "is_ascii ''customData''" "is_ascii ''clientId''" "is_ascii ''apiKey''"
  "is_ascii ''batchId''" "is_ascii ''events''" "is_ascii ''isRetry''"
  "is_ascii ''retryAttempt''"
  by (simp_all add: is_ascii_def)











section \<open>The event log\<close>

lemma file_write_ok: "file_write d l = (True, l1) \<Longrightarrow> logFile l1 = logFile l @ d"
  by (auto simp add: file_write_def split: list.splits write_outcome.splits)

lemma file_write_failed:
  "file_write d l = (False, l1) \<Longrightarrow> \<exists>n. logFile l1 = logFile l @ take n d"
  by (auto simp add: file_write_def split: list.splits write_outcome.splits)

lemma logEvent_ok:
  "logEvent marshal ev l = (Inr u, l1) \<Longrightarrow> logFile l1 = logFile l @ rendered marshal ev"
  by (auto simp add: logEvent_def rendered_def split: option.splits prod.splits bool.splits
      dest!: file_write_ok)

lemma logEvent_failed:
  "logEvent marshal ev l = (Inl err, l1) \<Longrightarrow> \<exists>part. logFile l1 = logFile l @ part"
  by (auto simp add: logEvent_def split: option.splits prod.splits bool.splits
      dest!: file_write_ok file_write_failed)

lemma logEvents_ok:
  "logEvents marshal evs l = (Inr u, l1) \<Longrightarrow>
     logFile l1 = logFile l @ concat (map (rendered marshal) evs)"
proof (induction evs arbitrary: l)
  case Nil
  then show ?case by simp
next
  case (Cons ev evs)
  then show ?case
    by (auto split: prod.splits sum.splits dest!: logEvent_ok)
qed

lemma logEvents_stop:
  assumes "logEvents marshal logged l = (Inr u, l1)"
    and "logEvent marshal ev l1 = (Inl err, l2)"
  shows "logEvents marshal (logged @ ev # rest) l = (Inl err, l2)"
  using assms
proof (induction logged arbitrary: l)
  case Nil
  then show ?case by simp
next
  case (Cons d ds)
  then show ?case by (auto split: prod.splits sum.splits)
qed

text \<open>
  Claim C9. \<open>LogBatch\<close> writes the header line, then the events in order, and stops at
  the first event whose marshalling or writing fails. When the header and the events
  \<open>0..i-1\<close> went through and event \<open>i\<close> fails, \<open>LogBatch\<close> returns that error, the file
  holds what it held before followed by the header, the events \<open>0..i-1\<close> and whatever
  the failing write left, and \<open>HandleEvents\<close> answers 500 with the file in that state:
  nothing is rolled back.
\<close>

theorem C9_log_not_rolled_back:
  assumes header: "file_write (batchInfo b) l = (True, l0)"
    and i: "i < length (events_of b)"
    and before: "logEvents marshal (take i (events_of b)) l0 = (Inr (), l1)"
    and at_i: "logEvent marshal (events_of b ! i) l1 = (Inl err, l2)"
  shows "LogBatch marshal b l = (Inl err, l2)
     \<and> (\<exists>part. logFile l2 = logFile l @ batchInfo b
            @ concat (map (rendered marshal) (take i (events_of b))) @ part)
     \<and> (Method r = ''POST'' \<and> decode (Body r) = Some b \<longrightarrow>
          HandleEvents decode marshal r l = (http_Error ''Internal server error'' 500, l2))"
proof -
  have split: "events_of b = take i (events_of b) @ (events_of b ! i) # drop (Suc i) (events_of b)"
    using i by (simp add: id_take_nth_drop)
  have "logEvents marshal (take i (events_of b) @ (events_of b ! i) # drop (Suc i) (events_of b)) l0
      = (Inl err, l2)"
    using logEvents_stop [OF before at_i] .
  then have stop: "logEvents marshal (events_of b) l0 = (Inl err, l2)"
    using split by simp
  have lb: "LogBatch marshal b l = (Inl err, l2)"
    using header stop by (simp add: LogBatch_def)
  have f0: "logFile l0 = logFile l @ batchInfo b"
    using file_write_ok [OF header] .
  have f1: "logFile l1 = logFile l0 @ concat (map (rendered marshal) (take i (events_of b)))"
    using logEvents_ok [OF before] .
  from logEvent_failed [OF at_i] obtain part where f2: "logFile l2 = logFile l1 @ part" ..
  have "logFile l2 = logFile l @ batchInfo b
        @ concat (map (rendered marshal) (take i (events_of b))) @ part"
    using f0 f1 f2 by simp
  then show ?thesis using lb by (auto simp add: HandleEvents_def)
qed

theorem C9_log_not_rolled_back_witness:
  "HandleEvents decode0 marshal0 \<lparr> Method = ''POST'', Body = ''batch0'' \<rparr>
     (logger0\<lparr> faults := [WriteOk, WriteOk, WriteOk, WriteFails 3] \<rparr>)
   = (http_Error ''Internal server error'' 500,
      logger0\<lparr> logFile := batchInfo batch0 @ ''play'' @ line_breaks @ ''pau'', faults := [] \<rparr>)"
proof -
  let ?start = "logger0\<lparr> faults := [WriteOk, WriteOk, WriteOk, WriteFails 3] \<rparr>"
  let ?headed = "logger0\<lparr> logFile := batchInfo batch0,
    faults := [WriteOk, WriteOk, WriteFails 3] \<rparr>"
  let ?one = "logger0\<lparr> logFile := batchInfo batch0 @ ''play'' @ line_breaks,
    faults := [WriteFails 3] \<rparr>"
  let ?torn = "logger0\<lparr> logFile := batchInfo batch0 @ ''play'' @ line_breaks @ ''pau'',
    faults := [] \<rparr>"
  have evs: "events_of batch0 = [ev0, ev0\<lparr> EventName := ''pause'' \<rparr>]"
    by (simp add: events_of_def batch0_def)
  have h: "file_write (batchInfo batch0) ?start = (True, ?headed)"
    by (simp add: file_write_def logger0_def)
  have i: "1 < length (events_of batch0)" by (simp add: evs)
  have b: "logEvents marshal0 (take 1 (events_of batch0)) ?headed = (Inr (), ?one)"
    by (simp add: evs logEvent_def marshal0_def file_write_def logger0_def ev0_def)
  have a: "logEvent marshal0 (events_of batch0 ! 1) ?one = (Inl EventWriteFailed, ?torn)"
    by (simp add: evs logEvent_def marshal0_def file_write_def logger0_def ev0_def)
  from C9_log_not_rolled_back [OF h i b a, of "\<lparr> Method = ''POST'', Body = ''batch0'' \<rparr>" decode0]
  show ?thesis by (simp add: decode0_def)
qed

section \<open>The handlers' answers\<close>

text \<open>
  Claim C8, as the code has it. Both handlers answer 405 to a method other than POST.
  To a POST whose body does not decode, \<open>HandleEvents\<close> answers 400, while
  \<open>HandleBeacons\<close> writes neither status nor body and leaves the log alone. To a POST
  that is decoded and logged, \<open>HandleEvents\<close> answers 200 with the JSON object of
  \<open>status\<close> and \<open>message\<close>, and \<open>HandleBeacons\<close> answers 204 with no body.
\<close>

theorem C8_handler_statuses:
  "(Method r \<noteq> ''POST'' \<longrightarrow>
      written_status (fst (HandleEvents decode marshal r l)) = Some 405
      \<and> written_status (fst (HandleBeacons decode marshal r l)) = Some 405)
   \<and> (Method r = ''POST'' \<and> decode (Body r) = None \<longrightarrow>
      written_status (fst (HandleEvents decode marshal r l)) = Some 400
      \<and> HandleBeacons decode marshal r l = (no_response, l))
   \<and> (Method r = ''POST'' \<and> decode (Body r) = Some b \<and> LogBatch marshal b l = (Inr (), l1) \<longrightarrow>
      HandleEvents decode marshal r l =
        (\<lparr> written_status = Some 200,
           resp_headers = [(''Content-Type'', ''application/json'')],
           resp_body = JsonBody (JObj
             [(''message'', JStr (''Processed '' @ show_nat (length (events_of b)) @ '' events'')),
              (''status'', JStr ''success'')]) \<rparr>, l1)
      \<and> HandleBeacons decode marshal r l =
        (\<lparr> written_status = Some 204, resp_headers = [], resp_body = NoBody \<rparr>, l1))"
  by (simp add: HandleEvents_def HandleBeacons_def http_Error_def)

theorem C8_handler_statuses_witness:
  "written_status (fst (HandleEvents decode0 marshal0 \<lparr> Method = ''GET'', Body = [] \<rparr> logger0))
     = Some 405
   \<and> written_status (fst (HandleBeacons decode0 marshal0 \<lparr> Method = ''GET'', Body = [] \<rparr> logger0))
     = Some 405
   \<and> written_status (fst (HandleEvents decode0 marshal0 \<lparr> Method = ''POST'', Body = ''{'' \<rparr> logger0))
     = Some 400
   \<and> written_status (fst (HandleEvents decode0 marshal0 \<lparr> Method = ''POST'', Body = ''batch0'' \<rparr> logger0))
     = Some 200
   \<and> written_status (fst (HandleBeacons decode0 marshal0 \<lparr> Method = ''POST'', Body = ''batch0'' \<rparr> logger0))
     = Some 204"
proof -
  let ?logged = "logger0\<lparr> logFile := batchInfo batch0 @ ''play'' @ line_breaks
    @ ''pause'' @ line_breaks \<rparr>"
  have lb: "LogBatch marshal0 batch0 logger0 = (Inr (), ?logged)"
    by (simp add: LogBatch_def events_of_def batch0_def logEvent_def marshal0_def file_write_def
        logger0_def ev0_def)
  have g: "Method \<lparr> Method = ''GET'', Body = [] \<rparr> \<noteq> ''POST''" by simp
  have m: "Method \<lparr> Method = ''POST'', Body = ''{'' \<rparr> = ''POST''
      \<and> decode0 (Body \<lparr> Method = ''POST'', Body = ''{'' \<rparr>) = None"
    by (simp add: decode0_def)
  have p: "Method \<lparr> Method = ''POST'', Body = ''batch0'' \<rparr> = ''POST''
      \<and> decode0 (Body \<lparr> Method = ''POST'', Body = ''batch0'' \<rparr>) = Some batch0
      \<and> LogBatch marshal0 batch0 logger0 = (Inr (), ?logged)"
    using lb by (simp add: decode0_def)
  from C8_handler_statuses [of "\<lparr> Method = ''GET'', Body = [] \<rparr>" decode0 marshal0 logger0] g
    C8_handler_statuses [of "\<lparr> Method = ''POST'', Body = ''{'' \<rparr>" decode0 marshal0 logger0] m
    C8_handler_statuses [of "\<lparr> Method = ''POST'', Body = ''batch0'' \<rparr>" decode0 marshal0 logger0
      batch0 ?logged] p
  show ?thesis by simp
qed

text \<open>A POST to the beacon endpoint with the body \<^verbatim>\<open>{\<close>, which does not decode: the
  handler writes no 400, and the status that goes out is 200.\<close>

theorem C8_beacon_malformed_counterexample:
  "Method \<lparr> Method = ''POST'', Body = ''{'' \<rparr> = ''POST''
   \<and> decode0 (Body \<lparr> Method = ''POST'', Body = ''{'' \<rparr>) = None
   \<and> written_status (fst (HandleBeacons decode0 marshal0 \<lparr> Method = ''POST'', Body = ''{'' \<rparr> logger0))
       \<noteq> Some 400
   \<and> status_sent (fst (HandleBeacons decode0 marshal0 \<lparr> Method = ''POST'', Body = ''{'' \<rparr> logger0))
       = 200"
  by (simp add: HandleBeacons_def decode0_def no_response_def status_sent_def)

end
